theory Spec2Isabelle
  imports Complex_Main
begin

section \<open>Data model (core/models.py)\<close>

text \<open>
  Python floats are modelled as exact reals: every arithmetic operation of the source is
  the corresponding operation on \<^typ>\<open>real\<close>, with no rounding, overflow or NaN. Python
  ints are \<^typ>\<open>int\<close>. An exception is a value \<open>Inl e\<close> of a sum type; a Python float
  division raises \<open>ZeroDivisionError\<close> when the divisor is zero, and so does the model.
\<close>

datatype error =
    ValueError string
  | ValidationError "(string \<times> string) list"
  | IndexError
  | ZeroDivisionError

record Assumptions =
  starting_revenue :: real
  growth_rate :: real
  gross_margin :: real
  opex_pct :: real
  tax_rate :: real
  wacc :: real
  capex_pct :: real
  delta_nwc_pct :: real
  terminal_growth :: real
  years :: int
  optimistic_growth_delta :: real
  pessimistic_growth_delta :: real
  optimistic_wacc_delta :: real
  pessimistic_wacc_delta :: real

record ScenarioParams =
  sp_name :: string
  sp_growth_rate :: real
  sp_wacc :: real



record Projection =
  pr_revenues :: "real list"
  pr_fcff :: "real list"
  pr_terminal_value :: real

subsection \<open>Construction-time validation of Assumptions\<close>

text \<open>
  Pydantic (version 1 API: \<open>validator\<close>, \<open>ModelField\<close>) validates the fields in the
  order of their declaration. For each field it first checks the bounds given in
  \<open>Field(...)\<close>; if they hold it runs the class validators registered for the field,
  passing \<open>values\<close>, the dictionary of the fields validated \<^emph>\<open>before\<close> this one; a field
  that passes is then added to \<open>values\<close>, a field that fails adds an error carrying its
  name. All errors are collected and raised together as one \<open>ValidationError\<close>.
\<close>

type_synonym field_values = "string \<Rightarrow> real option"

text \<open>\<open>Assumptions.validate_wacc\<close>: \<open>values.get("terminal_growth", 0.0)\<close>.\<close>

definition validate_wacc :: "real \<Rightarrow> field_values \<Rightarrow> string option" where
  "validate_wacc v vals =
     (let terminal_growth = (case vals ''terminal_growth'' of Some t \<Rightarrow> t | None \<Rightarrow> 0)
      in if v \<le> terminal_growth
         then Some ''WACC must be greater than terminal growth rate.''
         else None)"

text \<open>
  \<open>Assumptions.validate_margin_sum\<close>, registered for \<open>gross_margin\<close> and \<open>opex_pct\<close>;
  \<open>fname\<close> is \<open>field.name\<close>. Python's \<open>if gross_margin and opex_pct and ...\<close> tests the
  two floats for being non-zero.
\<close>

definition validate_margin_sum :: "string \<Rightarrow> real \<Rightarrow> field_values \<Rightarrow> string option" where
  "validate_margin_sum fname v vals =
     (let gm = (case vals ''gross_margin'' of Some g \<Rightarrow> g
                | None \<Rightarrow> (if fname = ''gross_margin'' then 0 else v));
          op = (case vals ''opex_pct'' of Some p \<Rightarrow> p
                | None \<Rightarrow> (if fname = ''opex_pct'' then 0 else v))
      in if gm \<noteq> 0 \<and> op \<noteq> 0 \<and> gm + op \<ge> 99 / 100
         then Some ''Gross margin plus opex percentage should leave room for profit.''
         else None)"

definition no_validator :: "real \<Rightarrow> field_values \<Rightarrow> string option" where
  "no_validator v vals = None"

text \<open>
  One field: \<open>bounds\<close> is the outcome of the \<open>Field(...)\<close> bounds on the value, \<open>cv\<close> the
  class validator of the field. The state is \<open>values\<close> and the errors so far.
\<close>

definition check_field ::
  "string \<Rightarrow> bool \<Rightarrow> (real \<Rightarrow> field_values \<Rightarrow> string option) \<Rightarrow> real \<Rightarrow>
   field_values \<times> (string \<times> string) list \<Rightarrow> field_values \<times> (string \<times> string) list" where
  "check_field fname bounds cv v st =
     (if bounds
      then (case cv v (fst st) of
              Some msg \<Rightarrow> (fst st, snd st @ [(fname, msg)])
            | None \<Rightarrow> ((fst st)(fname \<mapsto> v), snd st))
      else (fst st, snd st @ [(fname, ''value is outside the bounds of the field'')]))"

definition assumptions_checks ::
  "Assumptions \<Rightarrow> field_values \<times> (string \<times> string) list" where
  "assumptions_checks a =
     (check_field ''pessimistic_wacc_delta''
        (0 \<le> pessimistic_wacc_delta a \<and> pessimistic_wacc_delta a \<le> 1 / 10)
        no_validator (pessimistic_wacc_delta a)
     (check_field ''optimistic_wacc_delta''
        (0 \<le> optimistic_wacc_delta a \<and> optimistic_wacc_delta a \<le> 1 / 10)
        no_validator (optimistic_wacc_delta a)
     (check_field ''pessimistic_growth_delta''
        (0 \<le> pessimistic_growth_delta a \<and> pessimistic_growth_delta a \<le> 2 / 10)
        no_validator (pessimistic_growth_delta a)
     (check_field ''optimistic_growth_delta''
        (0 \<le> optimistic_growth_delta a \<and> optimistic_growth_delta a \<le> 2 / 10)
        no_validator (optimistic_growth_delta a)
     (check_field ''years'' (1 \<le> years a \<and> years a \<le> 10)
        no_validator (real_of_int (years a))
     (check_field ''terminal_growth''
        (- (5 / 100) \<le> terminal_growth a \<and> terminal_growth a < 2 / 10)
        no_validator (terminal_growth a)
     (check_field ''delta_nwc_pct'' (- 1 \<le> delta_nwc_pct a \<and> delta_nwc_pct a < 1)
        no_validator (delta_nwc_pct a)
     (check_field ''capex_pct'' (0 \<le> capex_pct a \<and> capex_pct a < 1)
        no_validator (capex_pct a)
     (check_field ''wacc'' (0 < wacc a \<and> wacc a < 1) validate_wacc (wacc a)
     (check_field ''tax_rate'' (0 \<le> tax_rate a \<and> tax_rate a < 1)
        no_validator (tax_rate a)
     (check_field ''opex_pct'' (0 < opex_pct a \<and> opex_pct a < 1)
        (validate_margin_sum ''opex_pct'') (opex_pct a)
     (check_field ''gross_margin'' (0 < gross_margin a \<and> gross_margin a < 1)
        (validate_margin_sum ''gross_margin'') (gross_margin a)
     (check_field ''growth_rate'' (- (1 / 2) \<le> growth_rate a \<and> growth_rate a \<le> 1)
        no_validator (growth_rate a)
     (check_field ''starting_revenue'' (0 < starting_revenue a)
        no_validator (starting_revenue a)
     (Map.empty, [])))))))))))))))"

text \<open>\<open>Assumptions(...)\<close>: the instance, or the collected validation errors.\<close>

definition new_Assumptions :: "Assumptions \<Rightarrow> error + Assumptions" where
  "new_Assumptions a =
     (case snd (assumptions_checks a) of
        [] \<Rightarrow> Inr a
      | e # es \<Rightarrow> Inl (ValidationError (e # es)))"

text \<open>An Assumptions value that the constructor accepts.\<close>

definition valid_assumptions :: "Assumptions \<Rightarrow> bool" where
  "valid_assumptions a = (new_Assumptions a = Inr a)"

subsection \<open>Construction-time validation of ScenarioParams\<close>

definition validate_growth :: "real \<Rightarrow> string option" where
  "validate_growth v =
     (if v < - (1 / 2) then Some ''Growth rate is unrealistically low for scenario.''
      else None)"

definition validate_scenario_wacc :: "real \<Rightarrow> string option" where
  "validate_scenario_wacc v =
     (if v \<le> 0 \<or> v \<ge> 1 then Some ''WACC must be between 0 and 1.'' else None)"

definition new_ScenarioParams :: "string \<Rightarrow> real \<Rightarrow> real \<Rightarrow> error + ScenarioParams" where
  "new_ScenarioParams nm g w =
     (case (case validate_growth g of Some m \<Rightarrow> [(''growth_rate'', m)] | None \<Rightarrow> [])
         @ (case validate_scenario_wacc w of Some m \<Rightarrow> [(''wacc'', m)] | None \<Rightarrow> []) of
        [] \<Rightarrow> Inr \<lparr>sp_name = nm, sp_growth_rate = g, sp_wacc = w\<rparr>
      | e # es \<Rightarrow> Inl (ValidationError (e # es)))"


section \<open>Scenario expansion (core/scenarios.py)\<close>

definition build_scenarios :: "Assumptions \<Rightarrow> error + ScenarioParams list" where
  "build_scenarios a =
     (case new_ScenarioParams ''Base'' (growth_rate a) (wacc a) of
        Inl e \<Rightarrow> Inl e
      | Inr base \<Rightarrow>
     (case new_ScenarioParams ''Optimistic''
             (growth_rate a + optimistic_growth_delta a)
             (max (1 / 100) (wacc a - optimistic_wacc_delta a)) of
        Inl e \<Rightarrow> Inl e
      | Inr optimistic \<Rightarrow>
     (case new_ScenarioParams ''Pessimistic''
             (growth_rate a - pessimistic_growth_delta a)
             (min (99 / 100) (wacc a + pessimistic_wacc_delta a)) of
        Inl e \<Rightarrow> Inl e
      | Inr pessimistic \<Rightarrow> Inr [base, optimistic, pessimistic])))"

section \<open>Valuation engine (core/dcf.py)\<close>

text \<open>Python float division \<open>x / y\<close>.\<close>

definition fdiv :: "real \<Rightarrow> real \<Rightarrow> error + real" where
  "fdiv x y = (if y = 0 then Inl ZeroDivisionError else Inr (x / y))"

text \<open>
  \<open>_project_revenues\<close>: the loop \<open>for _ in range(1, years + 1)\<close> runs \<open>nat years\<close>
  times; \<open>n\<close> is the number of rounds left, \<open>current\<close> the running revenue.
\<close>

fun project_loop :: "nat \<Rightarrow> real \<Rightarrow> real \<Rightarrow> real list \<Rightarrow> real list" where
  "project_loop 0 current g revenues = revenues"
| "project_loop (Suc n) current g revenues =
     (let current' = current * (1 + g)
      in project_loop n current' g (revenues @ [current']))"

definition project_revenues :: "real \<Rightarrow> real \<Rightarrow> int \<Rightarrow> real list" where
  "project_revenues start g yrs = project_loop (nat yrs) start g []"

text \<open>\<open>_calculate_fcff\<close>: the body of the loop, then the loop.\<close>

definition fcff_of :: "Assumptions \<Rightarrow> real \<Rightarrow> real" where
  "fcff_of a revenue =
     (let gross_profit = revenue * gross_margin a;
          opex = revenue * opex_pct a;
          ebit = gross_profit - opex;
          nopat = ebit * (1 - tax_rate a);
          capex = revenue * capex_pct a;
          delta_nwc = revenue * delta_nwc_pct a
      in nopat - capex - delta_nwc)"

definition calculate_fcff :: "Assumptions \<Rightarrow> real list \<Rightarrow> real list" where
  "calculate_fcff a revenues = map (fcff_of a) revenues"

definition terminal_value :: "real \<Rightarrow> real \<Rightarrow> real \<Rightarrow> error + real" where
  "terminal_value last_fcff w tg =
     (if w \<le> tg
      then Inl (ValueError ''Terminal value calculation requires WACC > terminal growth.'')
      else Inr (last_fcff * (1 + tg) / (w - tg)))"




text \<open>
  \<open>_irr\<close>, the inner loop over \<open>enumerate(cash_flows)\<close>: the state is the pair
  \<open>(npv, derivative)\<close>, \<open>period\<close> the position of the head of the remaining flows.
\<close>

fun irr_sums :: "nat \<Rightarrow> real list \<Rightarrow> real \<Rightarrow> real \<times> real \<Rightarrow> error + real \<times> real" where
  "irr_sums period [] rate acc = Inr acc"
| "irr_sums period (v # vs) rate acc =
     (case fdiv v ((1 + rate) ^ period) of
        Inl e \<Rightarrow> Inl e
      | Inr q \<Rightarrow>
          (if period > 0
           then (case fdiv (real period * v) ((1 + rate) ^ (period + 1)) of
                   Inl e \<Rightarrow> Inl e
                 | Inr q' \<Rightarrow> irr_sums (Suc period) vs rate (fst acc + q, snd acc - q'))
           else irr_sums (Suc period) vs rate (fst acc + q, snd acc)))"

text \<open>
  \<open>_irr\<close>, the Newton loop \<open>for _ in range(max_iterations)\<close>: \<open>n\<close> is the number of
  rounds left. The result is paired with the number of rounds begun, which the source
  does not return and which only the statements about the number of iterations read.
  \<open>break\<close> leaves the loop for the final \<open>return None\<close>.
\<close>

fun irr_loop :: "nat \<Rightarrow> real \<Rightarrow> real list \<Rightarrow> nat \<times> (error + real option)" where
  "irr_loop 0 rate cash_flows = (0, Inr None)"
| "irr_loop (Suc n) rate cash_flows =
     (case irr_sums 0 cash_flows rate (0, 0) of
        Inl e \<Rightarrow> (1, Inl e)
      | Inr nd \<Rightarrow>
          (if abs (snd nd) < 1 / 10 ^ 9 then (1, Inr None)
           else (let new_rate = rate - fst nd / snd nd
                 in if abs (new_rate - rate) < 1 / 10 ^ 6
                    then (if new_rate > - (999 / 1000) then (1, Inr (Some new_rate))
                          else (1, Inr None))
                    else (let r = irr_loop n new_rate cash_flows
                          in (Suc (fst r), snd r)))))"




text \<open>\<open>project_cash_flows\<close>; \<open>fcff_values[-1]\<close> raises \<open>IndexError\<close> on an empty list.\<close>

definition project_cash_flows :: "Assumptions \<Rightarrow> ScenarioParams \<Rightarrow> error + Projection" where
  "project_cash_flows a s =
     (let revenues = project_revenues (starting_revenue a) (sp_growth_rate s) (years a);
          fcff_values = calculate_fcff a revenues
      in if fcff_values = [] then Inl IndexError
         else (case terminal_value (last fcff_values) (sp_wacc s) (terminal_growth a) of
                 Inl e \<Rightarrow> Inl e
               | Inr terminal \<Rightarrow>
                   Inr \<lparr>pr_revenues = revenues, pr_fcff = fcff_values,
                        pr_terminal_value = terminal\<rparr>))"


section \<open>Sensitivity sweep (agents/sensitivity\_agent.py)\<close>







section \<open>Predicates and inputs used in the statements\<close>

text \<open>The bounds of the \<open>Field(...)\<close> declarations of Assumptions.\<close>

definition in_bounds :: "Assumptions \<Rightarrow> bool" where
  "in_bounds a = (0 < starting_revenue a \<and> - (1 / 2) \<le> growth_rate a \<and> growth_rate a \<le> 1 \<and>
     0 < gross_margin a \<and> gross_margin a < 1 \<and> 0 < opex_pct a \<and> opex_pct a < 1 \<and>
     0 \<le> tax_rate a \<and> tax_rate a < 1 \<and> 0 < wacc a \<and> wacc a < 1 \<and>
     0 \<le> capex_pct a \<and> capex_pct a < 1 \<and> - 1 \<le> delta_nwc_pct a \<and> delta_nwc_pct a < 1 \<and>
     - (5 / 100) \<le> terminal_growth a \<and> terminal_growth a < 2 / 10 \<and>
     1 \<le> years a \<and> years a \<le> 10 \<and>
     0 \<le> optimistic_growth_delta a \<and> optimistic_growth_delta a \<le> 2 / 10 \<and>
     0 \<le> pessimistic_growth_delta a \<and> pessimistic_growth_delta a \<le> 2 / 10 \<and>
     0 \<le> optimistic_wacc_delta a \<and> optimistic_wacc_delta a \<le> 1 / 10 \<and>
     0 \<le> pessimistic_wacc_delta a \<and> pessimistic_wacc_delta a \<le> 1 / 10)"

text \<open>
  The net free cash flow per unit of revenue: \<open>fcff_of a revenue\<close> is \<open>revenue\<close> times it.
\<close>

definition fcff_margin :: "Assumptions \<Rightarrow> real" where
  "fcff_margin a =
     (gross_margin a - opex_pct a) * (1 - tax_rate a) - capex_pct a - delta_nwc_pct a"

text \<open>The example of the specification and of the tests (tests/test\_scenarios.py).\<close>

definition spec_example :: Assumptions where
  "spec_example = \<lparr>starting_revenue = 1000000, growth_rate = 8 / 100, gross_margin = 5 / 10,
     opex_pct = 3 / 10, tax_rate = 21 / 100, wacc = 1 / 10, capex_pct = 5 / 100,
     delta_nwc_pct = 2 / 100, terminal_growth = 2 / 100, years = 5,
     optimistic_growth_delta = 1 / 100, pessimistic_growth_delta = 2 / 100,
     optimistic_wacc_delta = 5 / 1000, pessimistic_wacc_delta = 1 / 100\<rparr>"

text \<open>Gross margin 0.6 and opex percentage 0.5: their sum is 1.1.\<close>

definition margin_input :: Assumptions where
  "margin_input = \<lparr>starting_revenue = 1000000, growth_rate = 8 / 100, gross_margin = 6 / 10,
     opex_pct = 5 / 10, tax_rate = 21 / 100, wacc = 1 / 10, capex_pct = 5 / 100,
     delta_nwc_pct = 2 / 100, terminal_growth = 2 / 100, years = 5,
     optimistic_growth_delta = 2 / 100, pessimistic_growth_delta = 2 / 100,
     optimistic_wacc_delta = 1 / 100, pessimistic_wacc_delta = 1 / 100\<rparr>"

text \<open>Growth rate at its lower bound, with the default pessimistic growth delta.\<close>

definition low_growth_input :: Assumptions where
  "low_growth_input = \<lparr>starting_revenue = 1000000, growth_rate = - (1 / 2), gross_margin = 5 / 10,
     opex_pct = 3 / 10, tax_rate = 21 / 100, wacc = 1 / 10, capex_pct = 5 / 100,
     delta_nwc_pct = 2 / 100, terminal_growth = 2 / 100, years = 5,
     optimistic_growth_delta = 2 / 100, pessimistic_growth_delta = 2 / 100,
     optimistic_wacc_delta = 1 / 100, pessimistic_wacc_delta = 1 / 100\<rparr>"

text \<open>A WACC of 0.5 percent, below the floor 0.01 of the optimistic scenario.\<close>

definition low_wacc_input :: Assumptions where
  "low_wacc_input = \<lparr>starting_revenue = 1000000, growth_rate = 8 / 100, gross_margin = 5 / 10,
     opex_pct = 3 / 10, tax_rate = 21 / 100, wacc = 5 / 1000, capex_pct = 5 / 100,
     delta_nwc_pct = 2 / 100, terminal_growth = 0, years = 5,
     optimistic_growth_delta = 2 / 100, pessimistic_growth_delta = 2 / 100,
     optimistic_wacc_delta = 1 / 100, pessimistic_wacc_delta = 1 / 100\<rparr>"

text \<open>
  The present value at rate \<open>r\<close> of the flows \<open>vs\<close>, the first of them in period \<open>p\<close>,
  and its derivative in \<open>r\<close>: \<open>\<Sum> v\<^sub>t / (1 + r) ^ t\<close> and \<open>\<Sum> - t * v\<^sub>t / (1 + r) ^ (t + 1)\<close>.
  The term of period 0 of the derivative is zero.
\<close>

fun npv_at :: "nat \<Rightarrow> real list \<Rightarrow> real \<Rightarrow> real" where
  "npv_at p [] r = 0"
| "npv_at p (v # vs) r = v / (1 + r) ^ p + npv_at (Suc p) vs r"

fun dnpv_at :: "nat \<Rightarrow> real list \<Rightarrow> real \<Rightarrow> real" where
  "dnpv_at p [] r = 0"
| "dnpv_at p (v # vs) r = - (real p * v / (1 + r) ^ (p + 1)) + dnpv_at (Suc p) vs r"








text \<open>The example of tests/test\_dcf.py and its two scenarios.\<close>

definition dcf_example :: Assumptions where
  "dcf_example = \<lparr>starting_revenue = 1000000, growth_rate = 8 / 100, gross_margin = 5 / 10,
     opex_pct = 3 / 10, tax_rate = 21 / 100, wacc = 1 / 10, capex_pct = 5 / 100,
     delta_nwc_pct = 2 / 100, terminal_growth = 2 / 100, years = 5,
     optimistic_growth_delta = 2 / 100, pessimistic_growth_delta = 2 / 100,
     optimistic_wacc_delta = 1 / 100, pessimistic_wacc_delta = 1 / 100\<rparr>"












section \<open>Properties of the validation\<close>

lemma snd_check_field_nil:
  "snd (check_field f b cv v st) = [] \<longleftrightarrow> snd st = [] \<and> b \<and> cv v (fst st) = None"
  by (auto simp: check_field_def split: option.splits)

lemma fst_check_field_other:
  "f \<noteq> g \<Longrightarrow> fst (check_field f b cv v st) g = fst st g"
  by (auto simp: check_field_def split: option.splits)

lemma new_Assumptions_Inr:
  "new_Assumptions a = Inr b \<longleftrightarrow> snd (assumptions_checks a) = [] \<and> b = a"
  by (auto simp: new_Assumptions_def split: list.splits)

text \<open>
  When \<open>validate_wacc\<close> runs, \<open>terminal_growth\<close> is not yet in \<open>values\<close>; when
  \<open>validate_margin_sum\<close> runs for a field, that field is not yet in \<open>values\<close> and its
  default is \<open>0.0\<close>. Neither validator can reject: the constructor accepts exactly the
  values within the bounds.
\<close>

lemma checks_nil_iff: "snd (assumptions_checks a) = [] \<longleftrightarrow> in_bounds a"
  unfolding assumptions_checks_def in_bounds_def
  by (simp add: snd_check_field_nil no_validator_def fst_check_field_other
      validate_margin_sum_def validate_wacc_def)

lemma valid_assumptions_iff: "valid_assumptions a \<longleftrightarrow> in_bounds a"
  by (simp add: valid_assumptions_def new_Assumptions_Inr checks_nil_iff)

lemma valid_spec_example: "valid_assumptions spec_example"
  by (simp add: valid_assumptions_iff in_bounds_def spec_example_def)

text \<open>
  C5. Assumptions with gross margin 0.6 and opex percentage 0.5 (sum 1.1, at least 0.99),
  every field within its bounds, are accepted by the constructor: the margin check
  never fires.
\<close>

theorem margin_sum_not_enforced:
  "99 / 100 \<le> gross_margin margin_input + opex_pct margin_input \<and>
   new_Assumptions margin_input = Inr margin_input"
  by (simp add: new_Assumptions_Inr checks_nil_iff in_bounds_def margin_input_def)


lemma new_ScenarioParams_ok:
  "- (1 / 2) \<le> g \<Longrightarrow> 0 < w \<Longrightarrow> w < 1 \<Longrightarrow>
   new_ScenarioParams nm g w = Inr \<lparr>sp_name = nm, sp_growth_rate = g, sp_wacc = w\<rparr>"
  by (simp add: new_ScenarioParams_def validate_growth_def validate_scenario_wacc_def)

section \<open>Properties of the scenario expansion\<close>

text \<open>
  The program adds and subtracts the deltas in double precision, the model exactly. A
  sum or difference that is exactly at least -0.5 is at least -0.5 after rounding too,
  so the success of the expansion below does not depend on rounding; the strict
  orderings are stated for deltas and WACCs that keep a margin of \<open>10\<^sup>-\<^sup>9\<close>, far above the
  rounding of a double in the range of these fields.
\<close>

lemma build_scenarios_ok:
  assumes "valid_assumptions a"
    and "- (1 / 2) \<le> growth_rate a - pessimistic_growth_delta a"
  shows "build_scenarios a = Inr
            [\<lparr>sp_name = ''Base'', sp_growth_rate = growth_rate a, sp_wacc = wacc a\<rparr>,
             \<lparr>sp_name = ''Optimistic'',
              sp_growth_rate = growth_rate a + optimistic_growth_delta a,
              sp_wacc = max (1 / 100) (wacc a - optimistic_wacc_delta a)\<rparr>,
             \<lparr>sp_name = ''Pessimistic'',
              sp_growth_rate = growth_rate a - pessimistic_growth_delta a,
              sp_wacc = min (99 / 100) (wacc a + pessimistic_wacc_delta a)\<rparr>]"
proof -
  from assms(1) have b: "in_bounds a" by (simp add: valid_assumptions_iff)
  have base: "new_ScenarioParams ''Base'' (growth_rate a) (wacc a) =
      Inr \<lparr>sp_name = ''Base'', sp_growth_rate = growth_rate a, sp_wacc = wacc a\<rparr>"
    using b by (intro new_ScenarioParams_ok) (simp_all add: in_bounds_def)
  have opt: "new_ScenarioParams ''Optimistic'' (growth_rate a + optimistic_growth_delta a)
        (max (1 / 100) (wacc a - optimistic_wacc_delta a)) =
      Inr \<lparr>sp_name = ''Optimistic'',
           sp_growth_rate = growth_rate a + optimistic_growth_delta a,
           sp_wacc = max (1 / 100) (wacc a - optimistic_wacc_delta a)\<rparr>"
    using b by (intro new_ScenarioParams_ok) (simp_all add: in_bounds_def)
  have pes: "new_ScenarioParams ''Pessimistic'' (growth_rate a - pessimistic_growth_delta a)
        (min (99 / 100) (wacc a + pessimistic_wacc_delta a)) =
      Inr \<lparr>sp_name = ''Pessimistic'',
           sp_growth_rate = growth_rate a - pessimistic_growth_delta a,
           sp_wacc = min (99 / 100) (wacc a + pessimistic_wacc_delta a)\<rparr>"
    using b assms(2) by (intro new_ScenarioParams_ok) (simp_all add: in_bounds_def)
  show ?thesis by (simp add: build_scenarios_def base opt pes)
qed

text \<open>
  C6, as stated, fails: Assumptions with growth rate -0.5 and pessimistic growth delta
  0.02 are valid, and the expansion raises the validation error of the pessimistic
  scenario (growth -0.52 is below -0.5) instead of returning three scenarios.
\<close>

theorem build_scenarios_rejects_low_growth:
  "valid_assumptions low_growth_input \<and>
   build_scenarios low_growth_input = Inl (ValidationError
     [(''growth_rate'', ''Growth rate is unrealistically low for scenario.'')])"
proof -
  have v: "valid_assumptions low_growth_input"
    by (simp add: valid_assumptions_iff in_bounds_def low_growth_input_def)
  then show ?thesis
    by (simp add: build_scenarios_def new_ScenarioParams_def validate_growth_def
          validate_scenario_wacc_def low_growth_input_def)
qed

text \<open>
  C6, amended. For every valid Assumptions with
  \<open>growth_rate - pessimistic_growth_delta \<ge> -0.5\<close> the expansion returns exactly the three
  scenarios Base, Optimistic, Pessimistic, in this order, with the growth rates and
  WACCs of the claim.
\<close>

theorem build_scenarios_spec:
  assumes "valid_assumptions a"
    and "- (1 / 2) \<le> growth_rate a - pessimistic_growth_delta a"
  shows "build_scenarios a = Inr
            [\<lparr>sp_name = ''Base'', sp_growth_rate = growth_rate a, sp_wacc = wacc a\<rparr>,
             \<lparr>sp_name = ''Optimistic'',
              sp_growth_rate = growth_rate a + optimistic_growth_delta a,
              sp_wacc = max (1 / 100) (wacc a - optimistic_wacc_delta a)\<rparr>,
             \<lparr>sp_name = ''Pessimistic'',
              sp_growth_rate = growth_rate a - pessimistic_growth_delta a,
              sp_wacc = min (99 / 100) (wacc a + pessimistic_wacc_delta a)\<rparr>]"
  using assms by (rule build_scenarios_ok)

theorem build_scenarios_spec_witness:
  "valid_assumptions spec_example \<and>
   - (1 / 2) \<le> growth_rate spec_example - pessimistic_growth_delta spec_example \<and>
   build_scenarios spec_example = Inr
     [\<lparr>sp_name = ''Base'', sp_growth_rate = 8 / 100, sp_wacc = 1 / 10\<rparr>,
      \<lparr>sp_name = ''Optimistic'', sp_growth_rate = 9 / 100, sp_wacc = 95 / 1000\<rparr>,
      \<lparr>sp_name = ''Pessimistic'', sp_growth_rate = 6 / 100, sp_wacc = 11 / 100\<rparr>]"
proof -
  have g: "- (1 / 2) \<le> growth_rate spec_example - pessimistic_growth_delta spec_example"
    by (simp add: spec_example_def)
  show ?thesis
    using valid_spec_example g build_scenarios_spec [OF valid_spec_example g]
    by (simp add: spec_example_def)
qed

text \<open>
  C7, as stated, fails: for valid Assumptions with WACC 0.005 and four positive deltas
  the optimistic WACC is the floor 0.01, above the base WACC 0.005.
\<close>

theorem scenario_ordering_fails_low_wacc:
  "valid_assumptions low_wacc_input \<and>
   0 < optimistic_growth_delta low_wacc_input \<and>
   0 < pessimistic_growth_delta low_wacc_input \<and>
   0 < optimistic_wacc_delta low_wacc_input \<and>
   0 < pessimistic_wacc_delta low_wacc_input \<and>
   build_scenarios low_wacc_input = Inr
     [\<lparr>sp_name = ''Base'', sp_growth_rate = 8 / 100, sp_wacc = 5 / 1000\<rparr>,
      \<lparr>sp_name = ''Optimistic'', sp_growth_rate = 10 / 100, sp_wacc = 10 / 1000\<rparr>,
      \<lparr>sp_name = ''Pessimistic'', sp_growth_rate = 6 / 100, sp_wacc = 15 / 1000\<rparr>]"
proof -
  have v: "valid_assumptions low_wacc_input"
    by (simp add: valid_assumptions_iff in_bounds_def low_wacc_input_def)
  have g: "- (1 / 2) \<le> growth_rate low_wacc_input - pessimistic_growth_delta low_wacc_input"
    by (simp add: low_wacc_input_def)
  show ?thesis
    using v build_scenarios_ok [OF v g] by (simp add: low_wacc_input_def)
qed

text \<open>
  C7, amended. For every valid Assumptions whose four deltas are at least \<open>10\<^sup>-\<^sup>9\<close>, whose
  WACC lies between \<open>0.01 + 10\<^sup>-\<^sup>9\<close> and \<open>0.99 - 10\<^sup>-\<^sup>9\<close> (clear of the floor 0.01 and the
  ceiling 0.99 of the scenario WACCs) and whose
  \<open>growth_rate - pessimistic_growth_delta\<close> is at least -0.5, the expansion returns
  three scenarios with Optimistic.growth > Base.growth > Pessimistic.growth and
  Optimistic.wacc < Base.wacc < Pessimistic.wacc.
\<close>

theorem scenario_ordering:
  assumes "valid_assumptions a"
    and "1 / 10 ^ 9 \<le> optimistic_growth_delta a"
    and "1 / 10 ^ 9 \<le> pessimistic_growth_delta a"
    and "1 / 10 ^ 9 \<le> optimistic_wacc_delta a"
    and "1 / 10 ^ 9 \<le> pessimistic_wacc_delta a"
    and "1 / 100 + 1 / 10 ^ 9 \<le> wacc a" and "wacc a \<le> 99 / 100 - 1 / 10 ^ 9"
    and "- (1 / 2) \<le> growth_rate a - pessimistic_growth_delta a"
  shows "\<exists>b opt pes. build_scenarios a = Inr [b, opt, pes] \<and>
           sp_growth_rate opt > sp_growth_rate b \<and> sp_growth_rate b > sp_growth_rate pes \<and>
           sp_wacc opt < sp_wacc b \<and> sp_wacc b < sp_wacc pes"
  using assms(2-7) build_scenarios_ok [OF assms(1,8)] by simp

theorem scenario_ordering_witness:
  "\<exists>b opt pes. build_scenarios spec_example = Inr [b, opt, pes] \<and>
     sp_growth_rate opt > sp_growth_rate b \<and> sp_growth_rate b > sp_growth_rate pes \<and>
     sp_wacc opt < sp_wacc b \<and> sp_wacc b < sp_wacc pes"
  using scenario_ordering [OF valid_spec_example] by (simp add: spec_example_def)

section \<open>Properties of the valuation engine\<close>

lemma project_loop_eq:
  "project_loop n cur g acc = acc @ map (\<lambda>t. cur * (1 + g) ^ t) [1 ..< Suc n]"
proof (induction n arbitrary: cur acc)
  case 0
  show ?case by simp
next
  case (Suc n)
  have "map (\<lambda>t. cur * (1 + g) ^ t) [1 ..< Suc (Suc n)] =
        cur * (1 + g) # map (\<lambda>t. cur * (1 + g) * (1 + g) ^ t) [1 ..< Suc n]"
    by (simp add: upt_conv_Cons map_Suc_upt [symmetric] del: upt_Suc)
  with Suc.IH show ?case by (simp add: Let_def del: upt_Suc)
qed

lemma project_revenues_eq:
  "project_revenues start g yrs = map (\<lambda>t. start * (1 + g) ^ t) [1 ..< Suc (nat yrs)]"
  by (simp add: project_revenues_def project_loop_eq del: upt_Suc)

lemma length_project_revenues: "length (project_revenues start g yrs) = nat yrs"
  by (simp add: project_revenues_eq del: upt_Suc)

lemma fcff_of_eq: "fcff_of a revenue = revenue * fcff_margin a"
  by (simp add: fcff_of_def fcff_margin_def Let_def algebra_simps)


lemma project_cash_flows_ok:
  assumes "1 \<le> years a" and "terminal_growth a < sp_wacc s"
  shows "project_cash_flows a s = Inr
     \<lparr>pr_revenues = project_revenues (starting_revenue a) (sp_growth_rate s) (years a),
      pr_fcff = map (fcff_of a)
         (project_revenues (starting_revenue a) (sp_growth_rate s) (years a)),
      pr_terminal_value =
        fcff_of a (starting_revenue a * (1 + sp_growth_rate s) ^ nat (years a))
          * (1 + terminal_growth a) / (sp_wacc s - terminal_growth a)\<rparr>"
proof -
  let ?rev = "project_revenues (starting_revenue a) (sp_growth_rate s) (years a)"
  from assms(1) obtain n where n: "nat (years a) = Suc n"
    by (cases "nat (years a)") auto
  have ne: "?rev \<noteq> []" using length_project_revenues [of "starting_revenue a" "sp_growth_rate s" "years a"] n
    by auto
  have "last ?rev = starting_revenue a * (1 + sp_growth_rate s) ^ nat (years a)"
    by (simp add: project_revenues_eq n)
  then have "last (map (fcff_of a) ?rev) =
      fcff_of a (starting_revenue a * (1 + sp_growth_rate s) ^ nat (years a))"
    using ne by (simp add: last_map)
  then show ?thesis using assms(2) ne
    by (simp add: project_cash_flows_def calculate_fcff_def terminal_value_def Let_def)
qed




section \<open>Properties of the IRR solver\<close>






lemma irr_sums_zero_div_pos:
  "1 + rate = 0 \<Longrightarrow> 0 < p \<Longrightarrow> vs \<noteq> [] \<Longrightarrow> irr_sums p vs rate acc = Inl ZeroDivisionError"
  by (cases vs) (auto simp: fdiv_def)

lemma irr_sums_zero_div:
  "1 + rate = 0 \<Longrightarrow> 2 \<le> length vs \<Longrightarrow> irr_sums 0 vs rate acc = Inl ZeroDivisionError"
proof -
  assume z: "1 + rate = 0" and "2 \<le> length vs"
  then obtain a b rest where vs: "vs = a # b # rest"
    by (cases vs; cases "tl vs") auto
  show ?thesis unfolding vs using z by (simp add: fdiv_def irr_sums_zero_div_pos)
qed

lemma inverse_power_derivative_eq:
  fixes y :: real
  assumes "y \<noteq> 0"
  shows "v * - (inverse (y ^ p) * (real p * y ^ (p - 1)) * inverse (y ^ p)) =
         - (real p * v / y ^ (p + 1))"
proof (cases p)
  case 0
  then show ?thesis by simp
next
  case (Suc q)
  show ?thesis unfolding Suc using assms by (simp add: field_simps)
qed

lemma npv_at_has_derivative:
  "1 + r \<noteq> 0 \<Longrightarrow> ((\<lambda>x. npv_at p vs x) has_real_derivative dnpv_at p vs r) (at r)"
proof (induction vs arbitrary: p)
  case Nil
  show ?case by simp
next
  case (Cons v vs)
  have "((\<lambda>x. (1 + x) ^ p) has_real_derivative real p * (1 + r) ^ (p - 1)) (at r)"
    by (auto intro!: derivative_eq_intros)
  moreover have "(1 + r) ^ p \<noteq> 0" using Cons.prems by simp
  ultimately have "((\<lambda>x. inverse ((1 + x) ^ p)) has_real_derivative
          - (inverse ((1 + r) ^ p) * (real p * (1 + r) ^ (p - 1)) * inverse ((1 + r) ^ p))) (at r)"
    by (rule DERIV_inverse')
  from DERIV_cmult [OF this, of v]
  have "((\<lambda>x. v * inverse ((1 + x) ^ p)) has_real_derivative
          - (real p * v / (1 + r) ^ (p + 1))) (at r)"
    unfolding inverse_power_derivative_eq [OF Cons.prems] .
  then have "((\<lambda>x. v / (1 + x) ^ p) has_real_derivative - (real p * v / (1 + r) ^ (p + 1))) (at r)"
    by (simp only: divide_inverse)
  from DERIV_add [OF this Cons.IH [OF Cons.prems]] show ?case by simp
qed


lemma irr_loop_iterations: "fst (irr_loop n rate cfs) \<le> n"
  by (induction n arbitrary: rate) (auto simp: Let_def split: sum.splits)






section \<open>The engine computes the quantities of the specification\<close>












section \<open>The NPV as a function of the WACC\<close>

















section \<open>Properties of the sensitivity sweep\<close>













lemma valid_dcf_example: "valid_assumptions dcf_example"
  by (simp add: valid_assumptions_iff in_bounds_def dcf_example_def)











end
